theory Spec2Isabelle
  imports Complex_Main
begin

section \<open>JSON values, objects and errors\<close>

text \<open>
  The stored procedures work on the values JSON text gives. \<open>JNum n\<close> is a number whose
  literal has the value \<open>n\<close> (the engine holds the nearest double), an object is its list of
  properties in property order, and \<open>JUndefined\<close> is what reading a missing property gives.
  \<open>JBuiltin f\<close> is no JSON value: it is what \<open>Object.prototype\<close> holds under the name \<open>f\<close> (a
  built-in function, and under \<open>__proto__\<close> the prototype itself), which a script gets only
  by reading a name that an object does not have itself.
\<close>

datatype jv =
    JUndefined
  | JNull
  | JBool bool
  | JNum rat
  | JStr string
  | JArr "jv list"
  | JObj "(string \<times> jv) list"
  | JBuiltin string

type_synonym obj = "(string \<times> jv) list"

text \<open>\<open>Object.keys(ob)\<close>; \<open>ob[k]\<close> for a name \<open>k\<close> that \<open>ob\<close> has itself (as a key from
  \<open>Object.keys(ob)\<close> is); \<open>ob[k] = v\<close> on the properties an object has itself; and
  \<open>Array.isArray(v)\<close>. An object has each property name once; where the count matters, a
  statement asks for \<open>distinct (Object_keys ob)\<close>.\<close>

definition Object_keys :: "obj \<Rightarrow> string list" where
  "Object_keys ob = map fst ob"

definition getProp :: "obj \<Rightarrow> string \<Rightarrow> jv" where
  "getProp ob k = (case map_of ob k of None \<Rightarrow> JUndefined | Some v \<Rightarrow> v)"

fun assign :: "obj \<Rightarrow> string \<Rightarrow> jv \<Rightarrow> obj" where
  "assign [] k v = [(k, v)]"
| "assign ((k', v') # ob) k v =
     (if k' = k then (k, v) # ob else (k', v') # assign ob k v)"

definition Array_isArray :: "jv \<Rightarrow> bool" where
  "Array_isArray v = (case v of JArr xs \<Rightarrow> True | _ \<Rightarrow> False)"

text \<open>\<open>ob[k]\<close> for any name \<open>k\<close>, on an object that JSON text gave: what the object has
  itself, else what \<open>Object.prototype\<close> has (the names of the language standard, with those
  of its annex for web engines).\<close>

definition objectPrototypeNames :: "string list" where
  "objectPrototypeNames =
     [''constructor'', ''hasOwnProperty'', ''isPrototypeOf'', ''propertyIsEnumerable'',
      ''toLocaleString'', ''toString'', ''valueOf'', ''__proto__'', ''__defineGetter__'',
      ''__defineSetter__'', ''__lookupGetter__'', ''__lookupSetter__'']"

definition readProperty :: "obj \<Rightarrow> string \<Rightarrow> jv" where
  "readProperty ob k =
     (case map_of ob k of
        Some v \<Rightarrow> v
      | None \<Rightarrow> if k \<in> set objectPrototypeNames then JBuiltin k else JUndefined)"

text \<open>
  What a procedure throws: \<open>new Error(message)\<close>, the engine's \<open>TypeError\<close>, or the store's
  own error object, rethrown by a callback.
\<close>

datatype error =
    Error string
  | TypeError
  | Thrown jv

text \<open>
  The update commands (interface \<open>IUpdateCommands\<close>): four optional groups, each an
  object from field name to the operator's value. \<open>None\<close> is a group that is not given
  (or is \<open>null\<close>): the operator then does nothing.
\<close>

record IUpdateCommands =
  dollar_set :: "obj option"
  dollar_pop :: "obj option"
  dollar_push :: "obj option"
  dollar_unshift :: "obj option"

section \<open>The document while a script works on it\<close>

text \<open>
  The store hands the script a document as an object with the fields of its JSON text and
  the prototype \<open>Object.prototype\<close>. The assignment \<open>document["__proto__"] = v\<close> of \<open>$set\<close>
  does not make a field: it reaches the setter of \<open>Object.prototype\<close>, which makes an object,
  an array or \<open>null\<close> the prototype of the document and ignores any other value. From then
  on \<open>document[f]\<close> finds what the prototype holds wherever the document has no field \<open>f\<close>
  itself, and an array found there is changed in place there. So the working document is
  its own fields and its prototype.
\<close>

datatype prototype =
    ObjectPrototype
  | NullPrototype
  | ObjectValue obj
  | ArrayValue "jv list"
  | BuiltinPrototype string

record jsobject =
  own :: obj
  proto :: prototype

definition plain :: "obj \<Rightarrow> jsobject" where
  "plain ob = \<lparr>own = ob, proto = ObjectPrototype\<rparr>"

text \<open>A property name is an array index when it is the decimal numeral of a number,
  without a leading zero.\<close>

definition digit :: "char \<Rightarrow> nat option" where
  "digit c =
     map_of [(CHR ''0'', 0), (CHR ''1'', 1), (CHR ''2'', 2), (CHR ''3'', 3), (CHR ''4'', 4),
             (CHR ''5'', 5), (CHR ''6'', 6), (CHR ''7'', 7), (CHR ''8'', 8), (CHR ''9'', 9)] c"

fun decimal :: "nat \<Rightarrow> string \<Rightarrow> nat option" where
  "decimal n [] = Some n"
| "decimal n (c # cs) =
     (case digit c of None \<Rightarrow> None | Some k \<Rightarrow> decimal (10 * n + k) cs)"

definition arrayIndex :: "string \<Rightarrow> nat option" where
  "arrayIndex f =
     (case f of
        [] \<Rightarrow> None
      | c # cs \<Rightarrow> if c = CHR ''0'' \<and> cs \<noteq> [] then None else decimal 0 f)"

text \<open>
  \<open>lookup document f\<close> is the JSON value that \<open>document[f]\<close> finds, with the place where it
  is held: a field of the document, a field of the prototype object, an element or the
  length of the prototype array, or the prototype itself (which the getter \<open>__proto__\<close> of
  \<open>Object.prototype\<close> gives). It is \<open>None\<close> when \<open>document[f]\<close> is \<open>undefined\<close> or one of the
  built-in values of \<open>Object.prototype\<close>, \<open>Array.prototype\<close> or a function: none of these
  is an array, and none is named \<open>_etag\<close> or \<open>_self\<close>.
\<close>

datatype place =
    Own
  | InPrototype
  | PrototypeElement nat
  | PrototypeLength
  | PrototypeItself

fun inherited :: "prototype \<Rightarrow> string \<Rightarrow> (jv \<times> place) option" where
  "inherited ObjectPrototype f = None"
| "inherited NullPrototype f = None"
| "inherited (BuiltinPrototype b) f = None"
| "inherited (ObjectValue p) f =
     (case map_of p f of
        Some v \<Rightarrow> Some (v, InPrototype)
      | None \<Rightarrow> if f = ''__proto__'' then Some (JObj p, PrototypeItself) else None)"
| "inherited (ArrayValue xs) f =
     (case arrayIndex f of
        Some i \<Rightarrow> if i < length xs then Some (xs ! i, PrototypeElement i) else None
      | None \<Rightarrow>
          if f = ''length'' then Some (JNum (of_nat (length xs)), PrototypeLength)
          else if f = ''__proto__'' then Some (JArr xs, PrototypeItself)
          else None)"

definition lookup :: "jsobject \<Rightarrow> string \<Rightarrow> (jv \<times> place) option" where
  "lookup document f =
     (case map_of (own document) f of
        Some v \<Rightarrow> Some (v, Own)
      | None \<Rightarrow> inherited (proto document) f)"

definition jsonField :: "jsobject \<Rightarrow> string \<Rightarrow> jv" where
  "jsonField document f =
     (case lookup document f of Some (v, pl) \<Rightarrow> v | None \<Rightarrow> JUndefined)"

text \<open>
  \<open>document[f] = v\<close>. The setter is what the assignment finds when \<open>f\<close> is \<open>__proto__\<close>, the
  document has no such field itself, and neither has its prototype object; a \<open>null\<close>
  prototype has no setter. In every other case the document gets or keeps a field of its
  own.
\<close>

definition setterReachable :: "jsobject \<Rightarrow> bool" where
  "setterReachable document =
     (''__proto__'' \<notin> set (Object_keys (own document)) \<and>
      (case proto document of
         NullPrototype \<Rightarrow> False
       | ObjectValue p \<Rightarrow> ''__proto__'' \<notin> set (Object_keys p)
       | _ \<Rightarrow> True))"

fun install :: "jv \<Rightarrow> prototype \<Rightarrow> prototype" where
  "install (JObj p) old = ObjectValue p"
| "install (JArr xs) old = ArrayValue xs"
| "install JNull old = NullPrototype"
| "install (JBuiltin b) old = BuiltinPrototype b"
| "install v old = old"

definition assignField :: "jsobject \<Rightarrow> string \<Rightarrow> jv \<Rightarrow> jsobject" where
  "assignField document f v =
     (if f = ''__proto__'' \<and> setterReachable document
      then document\<lparr>proto := install v (proto document)\<rparr>
      else document\<lparr>own := assign (own document) f v\<rparr>)"

text \<open>The array that \<open>document[f]\<close> found at a place gets new contents (what \<open>pop\<close>, \<open>shift\<close>,
  \<open>push\<close> or \<open>unshift\<close> leave of it) at that place.\<close>

fun writeArray :: "jsobject \<Rightarrow> string \<Rightarrow> place \<Rightarrow> jv list \<Rightarrow> jsobject" where
  "writeArray document f Own ys = document\<lparr>own := assign (own document) f (JArr ys)\<rparr>"
| "writeArray document f InPrototype ys =
     (case proto document of
        ObjectValue p \<Rightarrow> document\<lparr>proto := ObjectValue (assign p f (JArr ys))\<rparr>
      | _ \<Rightarrow> document)"
| "writeArray document f (PrototypeElement i) ys =
     (case proto document of
        ArrayValue xs \<Rightarrow> document\<lparr>proto := ArrayValue (xs[i := JArr ys])\<rparr>
      | _ \<Rightarrow> document)"
| "writeArray document f PrototypeItself ys =
     (case proto document of
        ArrayValue xs \<Rightarrow> document\<lparr>proto := ArrayValue ys\<rparr>
      | _ \<Rightarrow> document)"
| "writeArray document f PrototypeLength ys = document"

section \<open>The collection as one invocation sees it\<close>

text \<open>
  The document store is outside the repository. Each request is either not accepted (the
  call returns \<open>false\<close> and the callback never runs), or accepted, and then the callback
  runs with an error or with the result. The collection is the three request functions;
  every statement below holds for all of them.
\<close>

datatype query = Query string "(string \<times> jv) list"

datatype query_reply =
    QNotAccepted
  | QError jv
  | QFeed "obj list" "string option"

datatype replace_reply =
    RNotAccepted
  | RError jv
  | RReplaced obj

datatype delete_reply =
    DNotAccepted
  | DError jv
  | DDeleted

record collection =
  queryDocuments :: "query \<Rightarrow> string option \<Rightarrow> query_reply"
  replaceDocument :: "jv \<Rightarrow> obj \<Rightarrow> jv \<Rightarrow> replace_reply"
  deleteDocument :: "jv \<Rightarrow> delete_reply"

text \<open>The requests an invocation has made, in order; a request that was not accepted is
  listed too. A request mutates a document when the store carried it out.\<close>

datatype request =
    QueryDocuments query "string option"
  | ReplaceDocument jv obj jv
  | DeleteDocument jv

fun carriedOut :: "collection \<Rightarrow> request \<Rightarrow> bool" where
  "carriedOut c (QueryDocuments q k) = False"
| "carriedOut c (ReplaceDocument link d etag) =
     (case replaceDocument c link d etag of RReplaced u \<Rightarrow> True | _ \<Rightarrow> False)"
| "carriedOut c (DeleteDocument link) =
     (case deleteDocument c link of DDeleted \<Rightarrow> True | _ \<Rightarrow> False)"

definition mutations :: "collection \<Rightarrow> request list \<Rightarrow> nat" where
  "mutations c tr = length (filter (carriedOut c) tr)"

section \<open>update.ts: \<open>updateFunc\<close>\<close>

subsection \<open>The operators\<close>

text \<open>Each operator is a loop over \<open>Object.keys\<close> of its group that changes the document
  in place; the model returns the changed document, or the error thrown.\<close>

fun updateFunc_set_loop :: "obj \<Rightarrow> string list \<Rightarrow> jsobject \<Rightarrow> jsobject" where
  "updateFunc_set_loop g [] document = document"
| "updateFunc_set_loop g (f # fs) document =
     updateFunc_set_loop g fs (assignField document f (getProp g f))"

definition updateFunc_set :: "jsobject \<Rightarrow> IUpdateCommands \<Rightarrow> jsobject" where
  "updateFunc_set document update =
     (case dollar_set update of
        None \<Rightarrow> document
      | Some g \<Rightarrow> updateFunc_set_loop g (Object_keys g) document)"

fun updateFunc_pop_loop :: "obj \<Rightarrow> string list \<Rightarrow> jsobject \<Rightarrow> error + jsobject" where
  "updateFunc_pop_loop g [] document = Inr document"
| "updateFunc_pop_loop g (f # fs) document =
     (case lookup document f of
        Some (JArr xs, pl) \<Rightarrow>
          updateFunc_pop_loop g fs (writeArray document f pl (butlast xs))
      | _ \<Rightarrow> Inl (Error ''Bad $pop parameter - field in document must be an array.''))"

definition updateFunc_pop :: "jsobject \<Rightarrow> IUpdateCommands \<Rightarrow> error + jsobject" where
  "updateFunc_pop document update =
     (case dollar_pop update of
        None \<Rightarrow> Inr document
      | Some g \<Rightarrow> updateFunc_pop_loop g (Object_keys g) document)"

fun updateFunc_push_loop :: "obj \<Rightarrow> string list \<Rightarrow> jsobject \<Rightarrow> error + jsobject" where
  "updateFunc_push_loop g [] document = Inr document"
| "updateFunc_push_loop g (f # fs) document =
     (case lookup document f of
        Some (JArr xs, pl) \<Rightarrow>
          updateFunc_push_loop g fs (writeArray document f pl (xs @ [getProp g f]))
      | _ \<Rightarrow> Inl (Error ''Bad $push parameter - field in document must be an array.''))"

definition updateFunc_push :: "jsobject \<Rightarrow> IUpdateCommands \<Rightarrow> error + jsobject" where
  "updateFunc_push document update =
     (case dollar_push update of
        None \<Rightarrow> Inr document
      | Some g \<Rightarrow> updateFunc_push_loop g (Object_keys g) document)"

fun updateFunc_unshift_loop :: "obj \<Rightarrow> string list \<Rightarrow> jsobject \<Rightarrow> error + jsobject" where
  "updateFunc_unshift_loop g [] document = Inr document"
| "updateFunc_unshift_loop g (f # fs) document =
     (case lookup document f of
        Some (JArr xs, pl) \<Rightarrow>
          updateFunc_unshift_loop g fs (writeArray document f pl (getProp g f # xs))
      | _ \<Rightarrow> Inl (Error ''Bad $unshift parameter - field in document must be an array.''))"

definition updateFunc_unshift :: "jsobject \<Rightarrow> IUpdateCommands \<Rightarrow> error + jsobject" where
  "updateFunc_unshift document update =
     (case dollar_unshift update of
        None \<Rightarrow> Inr document
      | Some g \<Rightarrow> updateFunc_unshift_loop g (Object_keys g) document)"

subsection \<open>Query and conditional replace\<close>

text \<open>
  \<open>tryUpdate\<close> reads the version token before the operators run, applies the four
  operators, and asks the store to replace the document under that token. The store is
  handed the document as it is written out, which is the fields the document has itself.
  \<open>tryUpdate\<close> gives the outcome (the error thrown, or the body set by \<open>response.setBody\<close>)
  and the requests made.
\<close>

definition updateFunc_tryUpdate ::
  "collection \<Rightarrow> IUpdateCommands \<Rightarrow> obj \<Rightarrow> (error + obj) \<times> request list" where
  "updateFunc_tryUpdate c update document =
     (let etag = jsonField (plain document) ''_etag'';
          d1 = updateFunc_set (plain document) update
      in case updateFunc_pop d1 update of
           Inl e \<Rightarrow> (Inl e, [])
         | Inr d2 \<Rightarrow>
        (case updateFunc_push d2 update of
           Inl e \<Rightarrow> (Inl e, [])
         | Inr d3 \<Rightarrow>
        (case updateFunc_unshift d3 update of
           Inl e \<Rightarrow> (Inl e, [])
         | Inr d4 \<Rightarrow>
        (case replaceDocument c (jsonField d4 ''_self'') (own d4) etag of
           RNotAccepted \<Rightarrow>
             (Inl (Error ''The stored procedure timed out.''),
              [ReplaceDocument (jsonField d4 ''_self'') (own d4) etag])
         | RError err \<Rightarrow>
             (Inl (Thrown err), [ReplaceDocument (jsonField d4 ''_self'') (own d4) etag])
         | RReplaced updatedDocument \<Rightarrow>
             (Inr updatedDocument,
              [ReplaceDocument (jsonField d4 ''_self'') (own d4) etag])))))"

definition updateFunc_query :: "string \<Rightarrow> query" where
  "updateFunc_query id' =
     Query ''SELECT * FROM root r WHERE r.id = @id'' [(''@id'', JStr id')]"

definition updateFunc_tryQueryAndUpdate ::
  "collection \<Rightarrow> string \<Rightarrow> IUpdateCommands \<Rightarrow> (error + obj) \<times> request list" where
  "updateFunc_tryQueryAndUpdate c id' update =
     (case queryDocuments c (updateFunc_query id') None of
        QNotAccepted \<Rightarrow>
          (Inl (Error ''The stored procedure timed out.''),
           [QueryDocuments (updateFunc_query id') None])
      | QError err \<Rightarrow> (Inl (Thrown err), [QueryDocuments (updateFunc_query id') None])
      | QFeed documents continuation \<Rightarrow>
          (case documents of
             document # rest \<Rightarrow>
               (let r = updateFunc_tryUpdate c update document
                in (fst r, QueryDocuments (updateFunc_query id') None # snd r))
           | [] \<Rightarrow>
               (Inl (Error ''Document not found.''),
                [QueryDocuments (updateFunc_query id') None])))"

text \<open>The arguments arrive as JSON: \<open>None\<close> is \<open>null\<close> or \<open>undefined\<close>. \<open>!id\<close> holds of
  these and of the empty string.\<close>

definition updateFunc ::
  "collection \<Rightarrow> string option \<Rightarrow> IUpdateCommands option \<Rightarrow> (error + obj) \<times> request list" where
  "updateFunc c id' updateCommands =
     (case id' of
        None \<Rightarrow> (Inl (Error ''The id is undefined or null.''), [])
      | Some i \<Rightarrow>
          if i = [] then (Inl (Error ''The id is undefined or null.''), [])
          else (case updateCommands of
                  None \<Rightarrow> (Inl (Error ''The update command is undefined or null.''), [])
                | Some update \<Rightarrow> updateFunc_tryQueryAndUpdate c i update))"

section \<open>The inline \<open>updateProc\<close> script\<close>

text \<open>
  The inline \<open>serverScript\<close> of \<open>updateProc\<close> has the same shape. It differs in three
  places: the query follows continuation tokens, \<open>pop\<close> looks at the sign of its value, and
  \<open>unshift\<close> reads the value to prepend from \<open>update.$push\<close>.

  \<open>update.$pop[f] < 0\<close> is the engine's relational comparison, which first makes a number
  of its left side. A number literal is compared as the double nearest to it, which is
  below zero when the literal is below \<open>-2^-1075\<close> (anything closer to zero is rounded to
  zero). \<open>null\<close> and the booleans become 0 or 1. An object becomes NaN through the
  built-in \<open>toString\<close>, unless it has a field \<open>toString\<close> itself: that field is no function,
  no conversion is left, and the comparison throws a \<open>TypeError\<close>. An array becomes the
  number that its joined text denotes; joining throws likewise when an element cannot be
  made text. Text is converted by the engine's number grammar, which is the parameter
  \<open>neg\<close>: \<open>neg s\<close> holds when the text \<open>s\<close> denotes a number below zero.
\<close>

definition negativeDouble :: "rat \<Rightarrow> bool" where
  "negativeDouble n = (n < - (1 / 2 ^ 1075))"

fun toStringThrows :: "jv \<Rightarrow> bool" where
  "toStringThrows (JObj p) = (''toString'' \<in> set (Object_keys p))"
| "toStringThrows (JArr xs) = list_ex toStringThrows xs"
| "toStringThrows v = False"

text \<open>\<open>negativeText neg v\<close>: the text of \<open>v\<close> denotes a number below zero (for a \<open>v\<close> whose
  text can be made). The text of an array of two or more elements has a comma and denotes
  no number; the text of \<open>null\<close>, of \<open>undefined\<close> and of the empty array is empty and denotes
  zero.\<close>

fun negativeText :: "(string \<Rightarrow> bool) \<Rightarrow> jv \<Rightarrow> bool" where
  "negativeText neg (JNum n) = negativeDouble n"
| "negativeText neg (JStr s) = neg s"
| "negativeText neg (JArr [x]) = negativeText neg x"
| "negativeText neg v = False"

fun lessThanZero :: "(string \<Rightarrow> bool) \<Rightarrow> jv \<Rightarrow> error + bool" where
  "lessThanZero neg (JNum n) = Inr (negativeDouble n)"
| "lessThanZero neg (JStr s) = Inr (neg s)"
| "lessThanZero neg (JObj p) =
     (if ''toString'' \<in> set (Object_keys p) then Inl TypeError else Inr False)"
| "lessThanZero neg (JArr xs) =
     (if list_ex toStringThrows xs then Inl TypeError
      else Inr (negativeText neg (JArr xs)))"
| "lessThanZero neg v = Inr False"

fun updateProc_set_loop :: "obj \<Rightarrow> string list \<Rightarrow> jsobject \<Rightarrow> jsobject" where
  "updateProc_set_loop g [] document = document"
| "updateProc_set_loop g (f # fs) document =
     updateProc_set_loop g fs (assignField document f (getProp g f))"

definition updateProc_set :: "jsobject \<Rightarrow> IUpdateCommands \<Rightarrow> jsobject" where
  "updateProc_set document update =
     (case dollar_set update of
        None \<Rightarrow> document
      | Some g \<Rightarrow> updateProc_set_loop g (Object_keys g) document)"

fun updateProc_pop_loop ::
  "(string \<Rightarrow> bool) \<Rightarrow> obj \<Rightarrow> string list \<Rightarrow> jsobject \<Rightarrow> error + jsobject" where
  "updateProc_pop_loop neg g [] document = Inr document"
| "updateProc_pop_loop neg g (f # fs) document =
     (case lookup document f of
        Some (JArr xs, pl) \<Rightarrow>
          (case lessThanZero neg (getProp g f) of
             Inl e \<Rightarrow> Inl e
           | Inr below \<Rightarrow>
               if below
               then updateProc_pop_loop neg g fs (writeArray document f pl (tl xs))
               else updateProc_pop_loop neg g fs (writeArray document f pl (butlast xs)))
      | _ \<Rightarrow> Inl (Error ''Bad $pop parameter - field in document must be an array.''))"

definition updateProc_pop ::
  "(string \<Rightarrow> bool) \<Rightarrow> jsobject \<Rightarrow> IUpdateCommands \<Rightarrow> error + jsobject" where
  "updateProc_pop neg document update =
     (case dollar_pop update of
        None \<Rightarrow> Inr document
      | Some g \<Rightarrow> updateProc_pop_loop neg g (Object_keys g) document)"

fun updateProc_push_loop :: "obj \<Rightarrow> string list \<Rightarrow> jsobject \<Rightarrow> error + jsobject" where
  "updateProc_push_loop g [] document = Inr document"
| "updateProc_push_loop g (f # fs) document =
     (case lookup document f of
        Some (JArr xs, pl) \<Rightarrow>
          updateProc_push_loop g fs (writeArray document f pl (xs @ [getProp g f]))
      | _ \<Rightarrow> Inl (Error ''Bad $push parameter - field in document must be an array.''))"

definition updateProc_push :: "jsobject \<Rightarrow> IUpdateCommands \<Rightarrow> error + jsobject" where
  "updateProc_push document update =
     (case dollar_push update of
        None \<Rightarrow> Inr document
      | Some g \<Rightarrow> updateProc_push_loop g (Object_keys g) document)"

text \<open>In \<open>unshift\<close> the loop runs over the keys of \<open>update.$unshift\<close>, and the value is
  \<open>update.$push[fields[i]]\<close>: a \<open>TypeError\<close> when there is no \<open>$push\<close> group, and otherwise
  what that group has under the name, itself or from \<open>Object.prototype\<close>.\<close>

fun updateProc_unshift_loop ::
  "obj option \<Rightarrow> string list \<Rightarrow> jsobject \<Rightarrow> error + jsobject" where
  "updateProc_unshift_loop p [] document = Inr document"
| "updateProc_unshift_loop p (f # fs) document =
     (case lookup document f of
        Some (JArr xs, pl) \<Rightarrow>
          (case p of
             None \<Rightarrow> Inl TypeError
           | Some pg \<Rightarrow>
               updateProc_unshift_loop p fs
                 (writeArray document f pl (readProperty pg f # xs)))
      | _ \<Rightarrow> Inl (Error ''Bad $unshift parameter - field in document must be an array.''))"

definition updateProc_unshift :: "jsobject \<Rightarrow> IUpdateCommands \<Rightarrow> error + jsobject" where
  "updateProc_unshift document update =
     (case dollar_unshift update of
        None \<Rightarrow> Inr document
      | Some g \<Rightarrow> updateProc_unshift_loop (dollar_push update) (Object_keys g) document)"

definition updateProc_tryUpdate ::
  "(string \<Rightarrow> bool) \<Rightarrow> collection \<Rightarrow> IUpdateCommands \<Rightarrow> obj \<Rightarrow> (error + obj) \<times> request list" where
  "updateProc_tryUpdate neg c update document =
     (let etag = jsonField (plain document) ''_etag'';
          d1 = updateProc_set (plain document) update
      in case updateProc_pop neg d1 update of
           Inl e \<Rightarrow> (Inl e, [])
         | Inr d2 \<Rightarrow>
        (case updateProc_push d2 update of
           Inl e \<Rightarrow> (Inl e, [])
         | Inr d3 \<Rightarrow>
        (case updateProc_unshift d3 update of
           Inl e \<Rightarrow> (Inl e, [])
         | Inr d4 \<Rightarrow>
        (case replaceDocument c (jsonField d4 ''_self'') (own d4) etag of
           RNotAccepted \<Rightarrow>
             (Inl (Error ''The stored procedure timed out.''),
              [ReplaceDocument (jsonField d4 ''_self'') (own d4) etag])
         | RError err \<Rightarrow>
             (Inl (Thrown err), [ReplaceDocument (jsonField d4 ''_self'') (own d4) etag])
         | RReplaced updatedDocument \<Rightarrow>
             (Inr updatedDocument,
              [ReplaceDocument (jsonField d4 ''_self'') (own d4) etag])))))"

definition updateProc_query :: "string \<Rightarrow> query" where
  "updateProc_query id' =
     Query ''select * from root r where r.id = @id'' [(''@id'', JStr id')]"

text \<open>
  \<open>tryQueryAndUpdate(continuation)\<close> calls itself for as long as the store answers with
  an empty page and a token, so it need not return: the result is \<open>None\<close> when it does
  not. \<open>tr\<close> holds the requests made so far. \<open>responseOptions.continuation\<close> is tested for
  truth, so an empty token counts as none.
\<close>

partial_function (option) updateProc_tryQueryAndUpdate ::
  "(string \<Rightarrow> bool) \<Rightarrow> collection \<Rightarrow> string \<Rightarrow> IUpdateCommands \<Rightarrow> string option
     \<Rightarrow> request list \<Rightarrow> ((error + obj) \<times> request list) option" where
  "updateProc_tryQueryAndUpdate neg c id' update continuation tr =
     (case queryDocuments c (updateProc_query id') continuation of
        QNotAccepted \<Rightarrow>
          Some (Inl (Error ''The stored procedure timed out.''),
                tr @ [QueryDocuments (updateProc_query id') continuation])
      | QError err \<Rightarrow>
          Some (Inl (Thrown err), tr @ [QueryDocuments (updateProc_query id') continuation])
      | QFeed documents next \<Rightarrow>
          (case documents of
             document # rest \<Rightarrow>
               Some (fst (updateProc_tryUpdate neg c update document),
                     tr @ QueryDocuments (updateProc_query id') continuation
                        # snd (updateProc_tryUpdate neg c update document))
           | [] \<Rightarrow>
               (case next of
                  Some t \<Rightarrow>
                    if t \<noteq> []
                    then updateProc_tryQueryAndUpdate neg c id' update (Some t)
                           (tr @ [QueryDocuments (updateProc_query id') continuation])
                    else Some (Inl (Error ''Document not found.''),
                               tr @ [QueryDocuments (updateProc_query id') continuation])
                | None \<Rightarrow>
                    Some (Inl (Error ''Document not found.''),
                          tr @ [QueryDocuments (updateProc_query id') continuation]))))"

declare updateProc_tryQueryAndUpdate.simps [code]

definition updateProc ::
  "(string \<Rightarrow> bool) \<Rightarrow> collection \<Rightarrow> string option \<Rightarrow> IUpdateCommands option
     \<Rightarrow> ((error + obj) \<times> request list) option" where
  "updateProc neg c id' updateCommands =
     (case id' of
        None \<Rightarrow> Some (Inl (Error ''The id is undefined or null.''), [])
      | Some i \<Rightarrow>
          if i = [] then Some (Inl (Error ''The id is undefined or null.''), [])
          else (case updateCommands of
                  None \<Rightarrow> Some (Inl (Error ''The update is undefined or null.''), [])
                | Some update \<Rightarrow> updateProc_tryQueryAndUpdate neg c i update None []))"

section \<open>BulkDeleteStoredProcedure.ts: \<open>bulkDeleteProc\<close>\<close>

text \<open>
  \<open>responseBody\<close> is \<open>{deleted: n}\<close>, and \<open>deleted\<close> is its counter. The outcome is the
  error thrown, or the response body at the end of the run: \<open>None\<close> when
  \<open>response.setBody\<close> was never called. \<open>tryDelete\<close> does nothing when its queue is empty.
\<close>

definition responseBody :: "nat \<Rightarrow> obj" where
  "responseBody n = [(''deleted'', JNum (of_nat n))]"

fun bulkDelete_tryDelete ::
  "collection \<Rightarrow> obj list \<Rightarrow> nat \<Rightarrow> (error + obj option) \<times> request list" where
  "bulkDelete_tryDelete c [] deleted = (Inr None, [])"
| "bulkDelete_tryDelete c (document # documents) deleted =
     (case deleteDocument c (getProp document ''_self'') of
        DNotAccepted \<Rightarrow>
          (Inr (Some (responseBody deleted)), [DeleteDocument (getProp document ''_self'')])
      | DError err \<Rightarrow> (Inl (Thrown err), [DeleteDocument (getProp document ''_self'')])
      | DDeleted \<Rightarrow>
          (fst (bulkDelete_tryDelete c documents (Suc deleted)),
           DeleteDocument (getProp document ''_self'')
             # snd (bulkDelete_tryDelete c documents (Suc deleted))))"

definition bulkDelete_query :: query where
  "bulkDelete_query = Query ''SELECT * FROM root'' []"

definition bulkDelete_tryQueryAndDelete ::
  "collection \<Rightarrow> string option \<Rightarrow> nat \<Rightarrow> (error + obj option) \<times> request list" where
  "bulkDelete_tryQueryAndDelete c continuation deleted =
     (case queryDocuments c bulkDelete_query continuation of
        QNotAccepted \<Rightarrow>
          (Inr (Some (responseBody deleted)), [QueryDocuments bulkDelete_query continuation])
      | QError err \<Rightarrow> (Inl (Thrown err), [QueryDocuments bulkDelete_query continuation])
      | QFeed retrievedDocs next \<Rightarrow>
          (case retrievedDocs of
             [] \<Rightarrow>
               (Inr (Some (responseBody deleted)),
                [QueryDocuments bulkDelete_query continuation])
           | d # ds \<Rightarrow>
               (fst (bulkDelete_tryDelete c retrievedDocs deleted),
                QueryDocuments bulkDelete_query continuation
                  # snd (bulkDelete_tryDelete c retrievedDocs deleted))))"

text \<open>The script starts with \<open>responseBody = {deleted: 0}\<close> and one call
  \<open>tryQueryAndDelete()\<close>, without a token.\<close>

definition bulkDeleteProc :: "collection \<Rightarrow> (error + obj option) \<times> request list" where
  "bulkDeleteProc c = bulkDelete_tryQueryAndDelete c None 0"

section \<open>The operators on a document without a changed prototype\<close>

text \<open>
  As long as \<open>$set\<close> has no key \<open>__proto__\<close>, the document keeps the prototype it came
  with, and the operators act on its own fields only. \<open>assignLoop\<close> is the loop of \<open>$set\<close>
  on those fields, and \<open>arrayLoop\<close> the loop of \<open>pop\<close>, \<open>push\<close> and \<open>unshift\<close>, with the array
  step \<open>h\<close> and the message as parameters. They are used in the proofs only, through the
  equations that identify each operator's loop with them on a document \<open>plain d\<close>.
\<close>

fun assignLoop :: "obj \<Rightarrow> string list \<Rightarrow> obj \<Rightarrow> obj" where
  "assignLoop g [] document = document"
| "assignLoop g (f # fs) document = assignLoop g fs (assign document f (getProp g f))"

fun arrayLoop ::
  "(string \<Rightarrow> jv list \<Rightarrow> jv list) \<Rightarrow> string \<Rightarrow> string list \<Rightarrow> obj \<Rightarrow> error + obj" where
  "arrayLoop h msg [] document = Inr document"
| "arrayLoop h msg (f # fs) document =
     (case getProp document f of
        JArr xs \<Rightarrow> arrayLoop h msg fs (assign document f (JArr (h f xs)))
      | _ \<Rightarrow> Inl (Error msg))"

definition popMessage :: string where
  "popMessage = ''Bad $pop parameter - field in document must be an array.''"

definition pushMessage :: string where
  "pushMessage = ''Bad $push parameter - field in document must be an array.''"

definition unshiftMessage :: string where
  "unshiftMessage = ''Bad $unshift parameter - field in document must be an array.''"


text \<open>An array operator of a group on the document \<open>plain d\<close>, by \<open>arrayLoop\<close>; the step
  may read the group.\<close>

definition plainOp ::
  "(obj \<Rightarrow> string \<Rightarrow> jv list \<Rightarrow> jv list) \<Rightarrow> string \<Rightarrow> obj option \<Rightarrow> obj \<Rightarrow> error + jsobject" where
  "plainOp H msg grp d =
     map_sum id plain
       (case grp of None \<Rightarrow> Inr d | Some g \<Rightarrow> arrayLoop (H g) msg (Object_keys g) d)"

text \<open>The field names a group targets, and the command set with no group.\<close>

definition groupKeys :: "obj option \<Rightarrow> string set" where
  "groupKeys g = (case g of None \<Rightarrow> {} | Some ob \<Rightarrow> set (Object_keys ob))"

definition noCommands :: IUpdateCommands where
  "noCommands =
     \<lparr>dollar_set = None, dollar_pop = None, dollar_push = None, dollar_unshift = None\<rparr>"

text \<open>
  \<open>emptyPages c q k ts\<close>: asked \<open>q\<close> from the token \<open>k\<close> on, the collection answers with
  empty pages that carry the tokens \<open>ts\<close>, one after the other; \<open>lastToken k ts\<close> is the
  token reached at the end.
\<close>

fun emptyPages :: "collection \<Rightarrow> query \<Rightarrow> string option \<Rightarrow> string list \<Rightarrow> bool" where
  "emptyPages c q k [] = True"
| "emptyPages c q k (t # ts) =
     (queryDocuments c q k = QFeed [] (Some t) \<and> t \<noteq> [] \<and> emptyPages c q (Some t) ts)"

fun lastToken :: "string option \<Rightarrow> string list \<Rightarrow> string option" where
  "lastToken k [] = k"
| "lastToken k (t # ts) = lastToken (Some t) ts"

fun queriesFrom :: "query \<Rightarrow> string option \<Rightarrow> string list \<Rightarrow> request list" where
  "queriesFrom q k [] = []"
| "queriesFrom q k (t # ts) = QueryDocuments q k # queriesFrom q (Some t) ts"

section \<open>Sample collections\<close>

text \<open>
  \<open>singlePage docs\<close> answers every query with all of \<open>docs\<close> in one page, carries out
  every replace and answers with the document it was given, and carries out every delete.
  \<open>emptyFirstPage docs\<close> answers the query without a token with an empty page and the
  token \<open>t1\<close>, and the query with a token with \<open>docs\<close>. \<open>budgetFor links docs\<close> deletes the
  documents whose link is in \<open>links\<close> and accepts no other delete. \<open>noBudget\<close> accepts no
  request.
\<close>

definition singlePage :: "obj list \<Rightarrow> collection" where
  "singlePage docs =
     \<lparr>queryDocuments = (\<lambda>q k. QFeed docs None),
      replaceDocument = (\<lambda>link d etag. RReplaced d),
      deleteDocument = (\<lambda>link. DDeleted)\<rparr>"

definition emptyFirstPage :: "obj list \<Rightarrow> collection" where
  "emptyFirstPage docs =
     \<lparr>queryDocuments =
        (\<lambda>q k. case k of None \<Rightarrow> QFeed [] (Some ''t1'') | Some t \<Rightarrow> QFeed docs None),
      replaceDocument = (\<lambda>link d etag. RReplaced d),
      deleteDocument = (\<lambda>link. DDeleted)\<rparr>"

definition budgetFor :: "jv list \<Rightarrow> obj list \<Rightarrow> collection" where
  "budgetFor links docs =
     \<lparr>queryDocuments = (\<lambda>q k. QFeed docs None),
      replaceDocument = (\<lambda>link d etag. RNotAccepted),
      deleteDocument = (\<lambda>link. if link \<in> set links then DDeleted else DNotAccepted)\<rparr>"

definition noBudget :: collection where
  "noBudget =
     \<lparr>queryDocuments = (\<lambda>q k. QNotAccepted),
      replaceDocument = (\<lambda>link d etag. RNotAccepted),
      deleteDocument = (\<lambda>link. DNotAccepted)\<rparr>"

definition user1 :: obj where
  "user1 =
     [(''id'', JStr ''1''), (''_self'', JStr ''docs/1''), (''_etag'', JStr ''v1''),
      (''key'', JStr ''test'')]"

definition user2 :: obj where
  "user2 =
     [(''id'', JStr ''2''), (''_self'', JStr ''docs/2''), (''_etag'', JStr ''v1''),
      (''key'', JStr ''other'')]"

definition user3 :: obj where
  "user3 =
     [(''id'', JStr ''3''), (''_self'', JStr ''docs/3''), (''_etag'', JStr ''v1''),
      (''key'', JStr ''third'')]"

definition tagged :: obj where
  "tagged =
     [(''id'', JStr ''1''), (''_self'', JStr ''docs/1''), (''_etag'', JStr ''v1''),
      (''tags'', JArr [JStr ''a'', JStr ''b'', JStr ''c''])]"

section \<open>Objects\<close>

lemma map_of_assign: "map_of (assign ob k v) = (map_of ob)(k \<mapsto> v)"
  by (induction ob) (auto simp: fun_eq_iff)

lemma getProp_assign: "getProp (assign ob k v) k' = (if k' = k then v else getProp ob k')"
  by (simp add: getProp_def map_of_assign)

lemma isArray_iff: "Array_isArray v \<longleftrightarrow> (\<exists>xs. v = JArr xs)"
  by (cases v) (simp_all add: Array_isArray_def)

section \<open>The array loop\<close>

text \<open>A field outside the loop's keys keeps its value, present or absent.\<close>

lemma arrayLoop_frame:
  "arrayLoop h msg fs d = Inr d' \<Longrightarrow> k \<notin> set fs \<Longrightarrow> map_of d' k = map_of d k"
proof (induction fs arbitrary: d)
  case Nil
  then show ?case by simp
next
  case (Cons f fs)
  from Cons.prems(1) obtain xs where xs: "getProp d f = JArr xs"
    and rest: "arrayLoop h msg fs (assign d f (JArr (h f xs))) = Inr d'"
    by (auto split: jv.splits)
  from Cons.IH[OF rest] Cons.prems(2) show ?case
    by (simp add: map_of_assign)
qed

text \<open>No field becomes an array or stops being one.\<close>

lemma arrayLoop_isArray:
  "arrayLoop h msg fs d = Inr d' \<Longrightarrow>
   Array_isArray (getProp d' k) = Array_isArray (getProp d k)"
proof (induction fs arbitrary: d)
  case Nil
  then show ?case by simp
next
  case (Cons f fs)
  from Cons.prems(1) obtain xs where xs: "getProp d f = JArr xs"
    and rest: "arrayLoop h msg fs (assign d f (JArr (h f xs))) = Inr d'"
    by (auto split: jv.splits)
  from Cons.IH[OF rest] xs show ?case
    by (simp add: getProp_assign Array_isArray_def)
qed


text \<open>The loop throws exactly when one of its keys names a field that is no array.\<close>

lemma arrayLoop_fails_iff:
  "(\<exists>e. arrayLoop h msg fs d = Inl e) \<longleftrightarrow> (\<exists>f\<in>set fs. \<not> Array_isArray (getProp d f))"
proof (induction fs arbitrary: d)
  case Nil
  then show ?case by simp
next
  case (Cons f fs)
  show ?case
  proof (cases "Array_isArray (getProp d f)")
    case False
    then show ?thesis by (auto simp: Array_isArray_def split: jv.splits)
  next
    case True
    then obtain xs where xs: "getProp d f = JArr xs" by (auto simp: isArray_iff)
    have "\<And>k. Array_isArray (getProp (assign d f (JArr (h f xs))) k)
            = Array_isArray (getProp d k)"
      using xs by (simp add: getProp_assign Array_isArray_def)
    then show ?thesis using Cons.IH[of "assign d f (JArr (h f xs))"] xs True by simp
  qed
qed

text \<open>With each key once, the field of a key is changed by one step.\<close>

lemma arrayLoop_value:
  "arrayLoop h msg fs d = Inr d' \<Longrightarrow> distinct fs \<Longrightarrow> k \<in> set fs \<Longrightarrow>
   getProp d k = JArr xs \<Longrightarrow> getProp d' k = JArr (h k xs)"
proof (induction fs arbitrary: d)
  case Nil
  then show ?case by simp
next
  case (Cons f fs)
  from Cons.prems(1) obtain ys where ys: "getProp d f = JArr ys"
    and rest: "arrayLoop h msg fs (assign d f (JArr (h f ys))) = Inr d'"
    by (auto split: jv.splits)
  show ?case
  proof (cases "k = f")
    case True
    then have "k \<notin> set fs" using Cons.prems(2) by simp
    from arrayLoop_frame[OF rest this] True ys Cons.prems(4) show ?thesis
      by (simp add: getProp_def map_of_assign)
  next
    case False
    then have "k \<in> set fs" using Cons.prems(3) by simp
    moreover have "getProp (assign d f (JArr (h f ys))) k = JArr xs"
      using False Cons.prems(4) by (simp add: getProp_assign)
    ultimately show ?thesis using Cons.IH[OF rest] Cons.prems(2) by simp
  qed
qed

text \<open>A step that leaves the empty array empty leaves an empty field empty, however often
  the field is named.\<close>

lemma arrayLoop_empty:
  "arrayLoop h msg fs d = Inr d' \<Longrightarrow> \<forall>k. h k [] = [] \<Longrightarrow> getProp d f = JArr [] \<Longrightarrow>
   getProp d' f = JArr []"
proof (induction fs arbitrary: d)
  case Nil
  then show ?case by simp
next
  case (Cons a fs)
  from Cons.prems(1) obtain ys where ys: "getProp d a = JArr ys"
    and rest: "arrayLoop h msg fs (assign d a (JArr (h a ys))) = Inr d'"
    by (auto split: jv.splits)
  have "getProp (assign d a (JArr (h a ys))) f = JArr []"
    using ys Cons.prems(2,3) by (auto simp: getProp_assign)
  from Cons.IH[OF rest Cons.prems(2) this] show ?case .
qed

section \<open>Documents with the prototype they came with\<close>

lemma own_plain: "own (plain d) = d"
  by (simp add: plain_def)

lemma proto_plain: "proto (plain d) = ObjectPrototype"
  by (simp add: plain_def)

lemma plain_eq_iff: "plain a = plain b \<longleftrightarrow> a = b"
  by (simp add: plain_def)

lemma plain_own_update: "(plain d)\<lparr>own := x\<rparr> = plain x"
  by (simp add: plain_def)

lemma lookup_plain:
  "lookup (plain d) f = (case map_of d f of Some v \<Rightarrow> Some (v, Own) | None \<Rightarrow> None)"
  by (simp add: lookup_def plain_def split: option.splits)

lemma jsonField_plain: "jsonField (plain d) f = getProp d f"
  by (simp add: jsonField_def lookup_plain getProp_def split: option.splits)

lemma writeArray_plain: "writeArray (plain d) f Own ys = plain (assign d f (JArr ys))"
  by (simp add: plain_def)

lemma assignField_plain:
  "f \<noteq> ''__proto__'' \<Longrightarrow> assignField (plain d) f v = plain (assign d f v)"
  by (simp add: assignField_def plain_def)

lemma updateFunc_set_loop_plain:
  "''__proto__'' \<notin> set fs \<Longrightarrow>
   updateFunc_set_loop g fs (plain d) = plain (assignLoop g fs d)"
  by (induction fs arbitrary: d) (auto simp: assignField_plain)

lemma updateProc_set_loop_plain:
  "''__proto__'' \<notin> set fs \<Longrightarrow>
   updateProc_set_loop g fs (plain d) = plain (assignLoop g fs d)"
  by (induction fs arbitrary: d) (auto simp: assignField_plain)

lemma arrayStep_plain:
  "(case lookup (plain d) f of Some (JArr xs, pl) \<Rightarrow> A xs pl | _ \<Rightarrow> B) =
   (case getProp d f of JArr xs \<Rightarrow> A xs Own | _ \<Rightarrow> B)"
  by (simp add: lookup_plain getProp_def split: option.splits jv.splits)

lemma updateFunc_pop_loop_plain:
  "updateFunc_pop_loop g fs (plain d) =
     map_sum id plain (arrayLoop (\<lambda>f. butlast) popMessage fs d)"
proof (induction fs arbitrary: d)
  case Nil
  then show ?case by simp
next
  case (Cons f fs)
  show ?case
    by (cases "getProp d f")
       (simp_all add: arrayStep_plain plain_own_update own_plain Cons.IH popMessage_def)
qed

lemma updateFunc_push_loop_plain:
  "updateFunc_push_loop g fs (plain d) =
     map_sum id plain (arrayLoop (\<lambda>f xs. xs @ [getProp g f]) pushMessage fs d)"
proof (induction fs arbitrary: d)
  case Nil
  then show ?case by simp
next
  case (Cons f fs)
  show ?case
    by (cases "getProp d f")
       (simp_all add: arrayStep_plain plain_own_update own_plain Cons.IH pushMessage_def)
qed

lemma updateFunc_unshift_loop_plain:
  "updateFunc_unshift_loop g fs (plain d) =
     map_sum id plain (arrayLoop (\<lambda>f xs. getProp g f # xs) unshiftMessage fs d)"
proof (induction fs arbitrary: d)
  case Nil
  then show ?case by simp
next
  case (Cons f fs)
  show ?case
    by (cases "getProp d f")
       (simp_all add: arrayStep_plain plain_own_update own_plain Cons.IH unshiftMessage_def)
qed

lemma lessThanZero_error: "lessThanZero neg v = Inl e \<Longrightarrow> e = TypeError"
  by (cases v) (auto split: if_splits)

lemma updateProc_pop_loop_plain:
  "\<forall>k\<in>set fs. \<forall>e. lessThanZero neg (getProp g k) \<noteq> Inl e \<Longrightarrow>
   updateProc_pop_loop neg g fs (plain d) =
     map_sum id plain
       (arrayLoop (\<lambda>f xs. if lessThanZero neg (getProp g f) = Inr True then tl xs else butlast xs)
          popMessage fs d)"
proof (induction fs arbitrary: d)
  case Nil
  then show ?case by simp
next
  case (Cons f fs)
  from Cons.prems obtain b where b: "lessThanZero neg (getProp g f) = Inr b"
    by (cases "lessThanZero neg (getProp g f)") auto
  from Cons.prems have rest: "\<forall>k\<in>set fs. \<forall>e. lessThanZero neg (getProp g k) \<noteq> Inl e"
    by simp
  show ?case
    by (cases "getProp d f")
       (simp_all add: arrayStep_plain plain_own_update own_plain Cons.IH[OF rest] popMessage_def b)
qed

lemma updateProc_unshift_loop_plain:
  "updateProc_unshift_loop (Some pg) fs (plain d) =
     map_sum id plain (arrayLoop (\<lambda>f xs. readProperty pg f # xs) unshiftMessage fs d)"
proof (induction fs arbitrary: d)
  case Nil
  then show ?case by simp
next
  case (Cons f fs)
  show ?case
    by (cases "getProp d f")
       (simp_all add: arrayStep_plain plain_own_update own_plain Cons.IH unshiftMessage_def)
qed

section \<open>The operators of \<open>updateFunc\<close> on such a document\<close>

lemma map_sum_plain_Inl: "map_sum id plain x = Inl e \<longleftrightarrow> x = Inl e"
  by (cases x) simp_all

lemma map_sum_plain_Inr: "map_sum id plain x = Inr doc \<longleftrightarrow> (\<exists>d'. x = Inr d' \<and> doc = plain d')"
  by (cases x) auto


lemma plainOp_fails_iff:
  "(\<exists>e. plainOp H msg grp d = Inl e) \<longleftrightarrow> (\<exists>f\<in>groupKeys grp. \<not> Array_isArray (getProp d f))"
  by (cases grp) (simp_all add: plainOp_def map_sum_plain_Inl groupKeys_def arrayLoop_fails_iff)

lemma plainOp_result:
  assumes "plainOp H msg grp d = Inr doc"
  shows "\<exists>d'. doc = plain d'
           \<and> (\<forall>k. Array_isArray (getProp d' k) = Array_isArray (getProp d k))
           \<and> (\<forall>k. k \<notin> groupKeys grp \<longrightarrow> map_of d' k = map_of d k)"
proof (cases grp)
  case None
  with assms show ?thesis by (auto simp: plainOp_def)
next
  case (Some g)
  with assms obtain d' where d': "arrayLoop (H g) msg (Object_keys g) d = Inr d'" "doc = plain d'"
    by (auto simp: plainOp_def map_sum_plain_Inr)
  have "\<forall>k. Array_isArray (getProp d' k) = Array_isArray (getProp d k)"
    using arrayLoop_isArray[OF d'(1)] by simp
  moreover have "\<forall>k. k \<notin> groupKeys grp \<longrightarrow> map_of d' k = map_of d k"
    using arrayLoop_frame[OF d'(1)] Some by (simp add: groupKeys_def)
  ultimately show ?thesis using d'(2) by blast
qed

lemma updateFunc_set_plain:
  "''__proto__'' \<notin> groupKeys (dollar_set u) \<Longrightarrow>
   updateFunc_set (plain d) u =
     plain (case dollar_set u of None \<Rightarrow> d | Some g \<Rightarrow> assignLoop g (Object_keys g) d)"
  by (cases "dollar_set u")
     (simp_all add: updateFunc_set_def groupKeys_def updateFunc_set_loop_plain)

lemma updateFunc_pop_plain:
  "updateFunc_pop (plain d) u =
     plainOp (\<lambda>g f. butlast) popMessage (dollar_pop u) d"
  by (simp add: plainOp_def updateFunc_pop_def updateFunc_pop_loop_plain split: option.splits)

lemma updateFunc_push_plain:
  "updateFunc_push (plain d) u =
     plainOp (\<lambda>g f xs. xs @ [getProp g f]) pushMessage (dollar_push u) d"
  by (simp add: plainOp_def updateFunc_push_def updateFunc_push_loop_plain split: option.splits)

lemma updateFunc_unshift_plain:
  "updateFunc_unshift (plain d) u =
     plainOp (\<lambda>g f xs. getProp g f # xs) unshiftMessage (dollar_unshift u) d"
  by (simp add: plainOp_def updateFunc_unshift_def updateFunc_unshift_loop_plain
        split: option.splits)

text \<open>When every field that \<open>$pop\<close>, \<open>$push\<close> or \<open>$unshift\<close> targets holds an array, the
  three operators succeed one after the other; when one of them does not, the first operator
  that meets such a field throws its message.\<close>

lemma updateFunc_operators_succeed:
  assumes "\<forall>f \<in> groupKeys (dollar_pop u) \<union> groupKeys (dollar_push u) \<union> groupKeys (dollar_unshift u).
             Array_isArray (getProp d1 f)"
  shows "\<exists>d2 d3 d4. updateFunc_pop (plain d1) u = Inr (plain d2)
           \<and> updateFunc_push (plain d2) u = Inr (plain d3)
           \<and> updateFunc_unshift (plain d3) u = Inr (plain d4)"
proof -
  have "\<not> (\<exists>e. updateFunc_pop (plain d1) u = Inl e)"
    using assms plainOp_fails_iff[of "\<lambda>g f. butlast" popMessage "dollar_pop u" d1]
    by (simp add: updateFunc_pop_plain)
  then obtain doc2 where "updateFunc_pop (plain d1) u = Inr doc2"
    by (cases "updateFunc_pop (plain d1) u") auto
  with plainOp_result[OF this[unfolded updateFunc_pop_plain]] obtain d2 where
    d2: "updateFunc_pop (plain d1) u = Inr (plain d2)"
        "\<forall>k. Array_isArray (getProp d2 k) = Array_isArray (getProp d1 k)" by auto
  have "\<not> (\<exists>e. updateFunc_push (plain d2) u = Inl e)"
    using assms d2(2) plainOp_fails_iff[of "\<lambda>g f xs. xs @ [getProp g f]" pushMessage "dollar_push u" d2]
    by (simp add: updateFunc_push_plain)
  then obtain doc3 where "updateFunc_push (plain d2) u = Inr doc3"
    by (cases "updateFunc_push (plain d2) u") auto
  with plainOp_result[OF this[unfolded updateFunc_push_plain]] obtain d3 where
    d3: "updateFunc_push (plain d2) u = Inr (plain d3)"
        "\<forall>k. Array_isArray (getProp d3 k) = Array_isArray (getProp d2 k)" by auto
  have "\<not> (\<exists>e. updateFunc_unshift (plain d3) u = Inl e)"
    using assms d2(2) d3(2) plainOp_fails_iff[of "\<lambda>g f xs. getProp g f # xs" unshiftMessage "dollar_unshift u" d3]
    by (simp add: updateFunc_unshift_plain)
  then obtain doc4 where "updateFunc_unshift (plain d3) u = Inr doc4"
    by (cases "updateFunc_unshift (plain d3) u") auto
  with plainOp_result[OF this[unfolded updateFunc_unshift_plain]] obtain d4 where
    d4: "updateFunc_unshift (plain d3) u = Inr (plain d4)" by auto
  from d2(1) d3(1) d4 show ?thesis by blast
qed


section \<open>Fields of the document that no key names\<close>

text \<open>Whatever the prototype, an operator changes no field of the document itself other
  than those its keys name.\<close>

lemma own_assignField_other:
  "k \<noteq> f \<Longrightarrow> map_of (own (assignField doc f v)) k = map_of (own doc) k"
  by (simp add: assignField_def map_of_assign)

lemma own_writeArray_other:
  "k \<noteq> f \<Longrightarrow> map_of (own (writeArray doc f pl ys)) k = map_of (own doc) k"
  by (cases pl) (auto simp: map_of_assign split: prototype.splits)

lemma updateFunc_set_loop_own:
  "k \<notin> set fs \<Longrightarrow> map_of (own (updateFunc_set_loop g fs doc)) k = map_of (own doc) k"
  by (induction fs arbitrary: doc) (auto simp: own_assignField_other)

lemma updateFunc_set_own:
  "k \<notin> groupKeys (dollar_set u) \<Longrightarrow> map_of (own (updateFunc_set doc u)) k = map_of (own doc) k"
  by (cases "dollar_set u")
     (simp_all add: updateFunc_set_def groupKeys_def updateFunc_set_loop_own)

lemma updateFunc_pop_loop_own:
  "updateFunc_pop_loop g fs doc = Inr doc' \<Longrightarrow> k \<notin> set fs \<Longrightarrow>
   map_of (own doc') k = map_of (own doc) k"
proof (induction fs arbitrary: doc)
  case Nil
  then show ?case by simp
next
  case (Cons f fs)
  from Cons.prems(1) obtain xs pl where
    rest: "updateFunc_pop_loop g fs (writeArray doc f pl (butlast xs)) = Inr doc'"
    by (auto split: option.splits prod.splits jv.splits)
  from Cons.IH[OF rest] Cons.prems(2) show ?case
    by (simp add: own_writeArray_other)
qed

lemma updateFunc_push_loop_own:
  "updateFunc_push_loop g fs doc = Inr doc' \<Longrightarrow> k \<notin> set fs \<Longrightarrow>
   map_of (own doc') k = map_of (own doc) k"
proof (induction fs arbitrary: doc)
  case Nil
  then show ?case by simp
next
  case (Cons f fs)
  from Cons.prems(1) obtain xs pl where
    rest: "updateFunc_push_loop g fs (writeArray doc f pl (xs @ [getProp g f])) = Inr doc'"
    by (auto split: option.splits prod.splits jv.splits)
  from Cons.IH[OF rest] Cons.prems(2) show ?case
    by (simp add: own_writeArray_other)
qed

lemma updateFunc_unshift_loop_own:
  "updateFunc_unshift_loop g fs doc = Inr doc' \<Longrightarrow> k \<notin> set fs \<Longrightarrow>
   map_of (own doc') k = map_of (own doc) k"
proof (induction fs arbitrary: doc)
  case Nil
  then show ?case by simp
next
  case (Cons f fs)
  from Cons.prems(1) obtain xs pl where
    rest: "updateFunc_unshift_loop g fs (writeArray doc f pl (getProp g f # xs)) = Inr doc'"
    by (auto split: option.splits prod.splits jv.splits)
  from Cons.IH[OF rest] Cons.prems(2) show ?case
    by (simp add: own_writeArray_other)
qed

lemma updateFunc_pop_own:
  "updateFunc_pop doc u = Inr doc' \<Longrightarrow> k \<notin> groupKeys (dollar_pop u) \<Longrightarrow>
   map_of (own doc') k = map_of (own doc) k"
  by (cases "dollar_pop u")
     (auto simp: updateFunc_pop_def groupKeys_def dest: updateFunc_pop_loop_own)

lemma updateFunc_push_own:
  "updateFunc_push doc u = Inr doc' \<Longrightarrow> k \<notin> groupKeys (dollar_push u) \<Longrightarrow>
   map_of (own doc') k = map_of (own doc) k"
  by (cases "dollar_push u")
     (auto simp: updateFunc_push_def groupKeys_def dest: updateFunc_push_loop_own)

lemma updateFunc_unshift_own:
  "updateFunc_unshift doc u = Inr doc' \<Longrightarrow> k \<notin> groupKeys (dollar_unshift u) \<Longrightarrow>
   map_of (own doc') k = map_of (own doc) k"
  by (cases "dollar_unshift u")
     (auto simp: updateFunc_unshift_def groupKeys_def dest: updateFunc_unshift_loop_own)

section \<open>A changed prototype, and values that cannot be compared\<close>

text \<open>
  \<open>$set\<close> with the key \<open>__proto__\<close> gives the document a prototype and no field; \<open>$push\<close>
  then finds the array of the prototype, succeeds, and the store is asked to replace the
  document with its own fields, which are as before. The comparison of the inline \<open>pop\<close>
  rounds a number literal to a double first, and throws for an object that has a field
  \<open>toString\<close>.
\<close>

lemma lessThanZero_examples:
  "lessThanZero neg (JNum (- 1)) = Inr True"
  "lessThanZero neg (JNum 0) = Inr False"
  "lessThanZero neg (JNum (- (1 / 10 ^ 400))) = Inr False"
  "lessThanZero neg JNull = Inr False"
  "lessThanZero neg (JArr [JNum (- 1)]) = Inr True"
  "lessThanZero neg (JArr [JNum (- 1), JNum 2]) = Inr False"
  "lessThanZero neg (JObj [(''a'', JNum 1)]) = Inr False"
  "lessThanZero neg (JObj [(''toString'', JNum 1)]) = Inl TypeError"
  "lessThanZero neg (JArr [JObj [(''toString'', JNum 1)], JNull]) = Inl TypeError"
  by (simp_all add: negativeDouble_def Object_keys_def)

lemma updateProc_pop_comparison_throws:
  "updateProc_pop neg (plain [(''tags'', JArr [])])
     (noCommands\<lparr>dollar_pop := Some [(''tags'', JObj [(''toString'', JNum 1)])]\<rparr>)
   = Inl TypeError"
  by (simp add: updateProc_pop_def noCommands_def Object_keys_def getProp_def lookup_plain)

lemma updateFunc_set_installs_prototype:
  "updateFunc_set (plain user1)
     (noCommands\<lparr>dollar_set := Some [(''__proto__'', JObj [(''tags'', JArr [JNum 1])])]\<rparr>)
   = \<lparr>own = user1, proto = ObjectValue [(''tags'', JArr [JNum 1])]\<rparr>"
  by (simp add: updateFunc_set_def noCommands_def Object_keys_def getProp_def assignField_def
        setterReachable_def plain_def user1_def)

lemma updateFunc_reads_array_through_prototype:
  "updateFunc (singlePage [user1]) (Some ''1'')
     (Some (noCommands\<lparr>dollar_set := Some [(''__proto__'', JObj [(''tags'', JArr [JNum 1])])],
                        dollar_push := Some [(''tags'', JStr ''x'')]\<rparr>))
   = (Inr user1,
      [QueryDocuments (updateFunc_query ''1'') None,
       ReplaceDocument (JStr ''docs/1'') user1 (JStr ''v1'')])"
  by (simp add: updateFunc_def updateFunc_tryQueryAndUpdate_def updateFunc_tryUpdate_def
        updateFunc_set_def updateFunc_pop_def updateFunc_push_def updateFunc_unshift_def
        singlePage_def noCommands_def Object_keys_def getProp_def assignField_def
        setterReachable_def plain_def user1_def lookup_def jsonField_def Let_def)

section \<open>What \<open>$pop\<close> removes\<close>

text \<open>
  In the inline script \<open>pop\<close> removes the first element when the value is below zero and
  the last element otherwise (when no comparison throws).
\<close>

lemma updateProc_pop_by_sign:
  assumes "dollar_pop u = Some g" "distinct (Object_keys g)" "f \<in> set (Object_keys g)"
    "getProp d f = JArr xs" "updateProc_pop neg (plain d) u = Inr (plain d')"
    "\<forall>k\<in>set (Object_keys g). \<forall>e. lessThanZero neg (getProp g k) \<noteq> Inl e"
  shows "getProp d' f =
           JArr (if lessThanZero neg (getProp g f) = Inr True then tl xs else butlast xs)"
proof -
  let ?h = "\<lambda>f xs. if lessThanZero neg (getProp g f) = Inr True then tl xs else butlast xs"
  from assms(1,5) have "arrayLoop ?h popMessage (Object_keys g) d = Inr d'"
    by (simp add: updateProc_pop_def updateProc_pop_loop_plain[OF assms(6)]
          map_sum_plain_Inr plain_eq_iff)
  from arrayLoop_value[OF this assms(2,3,4)] show ?thesis .
qed

lemma updateProc_pop_example:
  "updateProc_pop neg (plain [(''tags'', JArr [JStr ''a'', JStr ''b'', JStr ''c''])])
     (noCommands\<lparr>dollar_pop := Some [(''tags'', JNum (- 1))]\<rparr>)
   = Inr (plain [(''tags'', JArr [JStr ''b'', JStr ''c''])])"
  by (simp add: updateProc_pop_def noCommands_def Object_keys_def getProp_def lookup_plain
        plain_own_update own_plain negativeDouble_def)

text \<open>In \<open>update.ts\<close> the loop of \<open>pop\<close> never reads the value: it removes the last
  element whatever the sign.\<close>

lemma updateFunc_pop_removes_last:
  assumes "dollar_pop u = Some g" "distinct (Object_keys g)" "f \<in> set (Object_keys g)"
    "getProp d f = JArr xs" "updateFunc_pop (plain d) u = Inr (plain d')"
  shows "getProp d' f = JArr (butlast xs)"
proof -
  from assms(1,5) have "arrayLoop (\<lambda>f. butlast) popMessage (Object_keys g) d = Inr d'"
    by (simp add: updateFunc_pop_plain plainOp_def map_sum_plain_Inr plain_eq_iff)
  from arrayLoop_value[OF this assms(2,3,4)] show ?thesis .
qed

text \<open>
  Claim C1: when \<open>$pop\<close> targets a field holding an array, the operator removes the first
  element for a negative delta and the last element otherwise. \<open>pop\<close> of \<open>update.ts\<close> does
  not: for the command \<open>{$pop: {tags: -1}}\<close> on \<open>["a", "b", "c"]\<close> it leaves
  \<open>["a", "b"]\<close>, where the claim (and the comment above the function) gives \<open>["b", "c"]\<close>.
\<close>

theorem updateFunc_pop_negative_delta_removes_last:
  "updateFunc_pop (plain [(''tags'', JArr [JStr ''a'', JStr ''b'', JStr ''c''])])
     (noCommands\<lparr>dollar_pop := Some [(''tags'', JNum (- 1))]\<rparr>)
   = Inr (plain [(''tags'', JArr [JStr ''a'', JStr ''b''])])"
  by (simp add: updateFunc_pop_def noCommands_def Object_keys_def lookup_plain
        plain_own_update own_plain)

section \<open>What \<open>$unshift\<close> prepends\<close>

text \<open>In \<open>update.ts\<close> the value prepended is the one the \<open>$unshift\<close> group gives.\<close>

lemma updateFunc_unshift_prepends:
  assumes "dollar_unshift u = Some g" "distinct (Object_keys g)" "f \<in> set (Object_keys g)"
    "getProp d f = JArr xs" "updateFunc_unshift (plain d) u = Inr (plain d')"
  shows "getProp d' f = JArr (getProp g f # xs)"
proof -
  from assms(1,5) have
    "arrayLoop (\<lambda>f xs. getProp g f # xs) unshiftMessage (Object_keys g) d = Inr d'"
    by (simp add: updateFunc_unshift_plain plainOp_def map_sum_plain_Inr plain_eq_iff)
  from arrayLoop_value[OF this assms(2,3,4)] show ?thesis .
qed

text \<open>In the inline script it is the value of the \<open>$push\<close> group for that field.\<close>

lemma updateProc_unshift_prepends_push_value:
  "updateProc_unshift (plain [(''tags'', JArr [JStr ''b'', JStr ''c''])])
     (noCommands\<lparr>dollar_push := Some [(''tags'', JStr ''p'')],
                  dollar_unshift := Some [(''tags'', JStr ''z'')]\<rparr>)
   = Inr (plain [(''tags'', JArr [JStr ''p'', JStr ''b'', JStr ''c''])])"
  by (simp add: updateProc_unshift_def noCommands_def Object_keys_def lookup_plain
        plain_own_update own_plain readProperty_def)

text \<open>
  Claim C2: when \<open>$unshift\<close> maps a field holding an array to a value \<open>v\<close>, the operator
  prepends \<open>v\<close>. \<open>unshift\<close> of the inline script does not: for the command
  \<open>{$unshift: {tags: "z"}}\<close> on \<open>["b", "c"]\<close> it reads \<open>update.$push["tags"]\<close> with no
  \<open>$push\<close> group and throws a \<open>TypeError\<close>, where the claim gives \<open>["z", "b", "c"]\<close>.
\<close>

theorem updateProc_unshift_reads_push_group:
  "updateProc_unshift (plain [(''tags'', JArr [JStr ''b'', JStr ''c''])])
     (noCommands\<lparr>dollar_unshift := Some [(''tags'', JStr ''z'')]\<rparr>)
   = Inl TypeError"
  by (simp add: updateProc_unshift_def noCommands_def Object_keys_def lookup_plain)

section \<open>Counting mutations\<close>

lemma mutations_simps:
  "mutations c [] = 0"
  "mutations c (QueryDocuments q k # tr) = mutations c tr"
  "mutations c (ReplaceDocument l d e # tr) =
     (case replaceDocument c l d e of RReplaced r \<Rightarrow> Suc (mutations c tr) | _ \<Rightarrow> mutations c tr)"
  "mutations c (DeleteDocument l # tr) =
     (case deleteDocument c l of DDeleted \<Rightarrow> Suc (mutations c tr) | _ \<Rightarrow> mutations c tr)"
  by (simp_all add: mutations_def split: replace_reply.splits delete_reply.splits)



lemma mutations_deletes:
  "\<forall>x\<in>set pre. deleteDocument c (getProp x ''_self'') = DDeleted \<Longrightarrow>
   mutations c (map (\<lambda>x. DeleteDocument (getProp x ''_self'')) pre @ tr) = length pre + mutations c tr"
  by (induction pre) (simp_all add: mutations_simps)

section \<open>Continuation tokens\<close>

text \<open>The inline script asks again with the token of an empty page, reports a missing
  document when an empty page has no token, and returns whenever the store stops
  answering with empty pages that carry a token.\<close>

lemma updateProc_follows_token:
  assumes "queryDocuments c (updateProc_query i) k = QFeed [] (Some t)" "t \<noteq> []"
  shows "updateProc_tryQueryAndUpdate neg c i u k tr =
         updateProc_tryQueryAndUpdate neg c i u (Some t) (tr @ [QueryDocuments (updateProc_query i) k])"
  using assms by (subst updateProc_tryQueryAndUpdate.simps) simp

lemma updateProc_not_found:
  assumes "queryDocuments c (updateProc_query i) k = QFeed [] None
         \<or> queryDocuments c (updateProc_query i) k = QFeed [] (Some [])"
  shows "updateProc_tryQueryAndUpdate neg c i u k tr =
         Some (Inl (Error ''Document not found.''), tr @ [QueryDocuments (updateProc_query i) k])"
  using assms by (subst updateProc_tryQueryAndUpdate.simps) auto

lemma updateProc_found:
  assumes "queryDocuments c (updateProc_query i) k = QFeed (d # ds) n"
  shows "updateProc_tryQueryAndUpdate neg c i u k tr =
         Some (fst (updateProc_tryUpdate neg c u d),
               tr @ QueryDocuments (updateProc_query i) k # snd (updateProc_tryUpdate neg c u d))"
  using assms by (subst updateProc_tryQueryAndUpdate.simps) simp

lemma updateProc_example_follows_token:
  "updateProc neg (emptyFirstPage [user1]) (Some ''1'') (Some noCommands) =
     Some (Inr user1,
       [QueryDocuments (updateProc_query ''1'') None,
        QueryDocuments (updateProc_query ''1'') (Some ''t1''),
        ReplaceDocument (JStr ''docs/1'') user1 (JStr ''v1'')])"
proof -
  let ?c = "emptyFirstPage [user1]"
  have 1: "queryDocuments ?c (updateProc_query ''1'') None = QFeed [] (Some ''t1'')"
    by (simp add: emptyFirstPage_def)
  have 2: "queryDocuments ?c (updateProc_query ''1'') (Some ''t1'') = QFeed [user1] None"
    by (simp add: emptyFirstPage_def)
  have 3: "updateProc_tryUpdate neg ?c noCommands user1 =
           (Inr user1, [ReplaceDocument (JStr ''docs/1'') user1 (JStr ''v1'')])"
    by (simp add: updateProc_tryUpdate_def updateProc_set_def updateProc_pop_def
          updateProc_push_def updateProc_unshift_def noCommands_def emptyFirstPage_def
          user1_def getProp_def jsonField_plain own_plain Let_def)
  show ?thesis
    by (simp add: updateProc_def updateProc_follows_token[OF 1] updateProc_found[OF 2] 3)
qed

lemma updateProc_follows_tokens:
  "emptyPages c (updateProc_query i) k ts \<Longrightarrow>
   updateProc_tryQueryAndUpdate neg c i u k tr =
   updateProc_tryQueryAndUpdate neg c i u (lastToken k ts)
     (tr @ queriesFrom (updateProc_query i) k ts)"
proof (induction ts arbitrary: k tr)
  case Nil
  then show ?case by simp
next
  case (Cons t ts)
  then have 1: "queryDocuments c (updateProc_query i) k = QFeed [] (Some t)" and 2: "t \<noteq> []"
    and 3: "emptyPages c (updateProc_query i) (Some t) ts" by simp_all
  show ?case
    using Cons.IH[OF 3, of "tr @ [QueryDocuments (updateProc_query i) k]"]
    by (simp add: updateProc_follows_token[OF 1 2])
qed

lemma updateProc_returns_on_finite_feed:
  assumes "i \<noteq> []" "emptyPages c (updateProc_query i) None ts"
    and "\<forall>t. queryDocuments c (updateProc_query i) (lastToken None ts) = QFeed [] (Some t) \<longrightarrow> t = []"
  shows "\<exists>res. updateProc neg c (Some i) (Some u) = Some res"
proof -
  let ?k = "lastToken None ts"
  let ?tr = "[] @ queriesFrom (updateProc_query i) None ts"
  have "\<exists>res. updateProc_tryQueryAndUpdate neg c i u ?k ?tr = Some res"
    using assms(3)
    by (subst updateProc_tryQueryAndUpdate.simps)
       (auto split: query_reply.splits list.splits option.splits)
  then show ?thesis
    using assms(1) updateProc_follows_tokens[OF assms(2), of neg u "[]"]
    by (simp add: updateProc_def)
qed

text \<open>\<open>updateFunc\<close> reports a missing document for an empty page.\<close>

lemma updateFunc_not_found:
  "i \<noteq> [] \<Longrightarrow> queryDocuments c (updateFunc_query i) None = QFeed [] k \<Longrightarrow>
   updateFunc c (Some i) (Some u) =
     (Inl (Error ''Document not found.''), [QueryDocuments (updateFunc_query i) None])"
  by (simp add: updateFunc_def updateFunc_tryQueryAndUpdate_def)

text \<open>
  Claim C4: when the id query answers with an empty page and a continuation token, the
  procedure repeats the query with that token instead of failing. \<open>tryQueryAndUpdate\<close> of
  \<open>update.ts\<close> does not: on a collection that answers the first query with an empty page
  and the token \<open>t1\<close>, and holds the document on the page behind that token, it makes one
  query and throws \<open>Document not found.\<close>
\<close>

theorem updateFunc_stops_at_empty_page_with_token:
  "updateFunc (emptyFirstPage [user1]) (Some ''1'') (Some noCommands) =
     (Inl (Error ''Document not found.''), [QueryDocuments (updateFunc_query ''1'') None])"
  by (simp add: updateFunc_def updateFunc_tryQueryAndUpdate_def emptyFirstPage_def)

section \<open>The order of the operators\<close>

text \<open>
  Both scripts run \<open>$set\<close>, then \<open>$pop\<close>, then \<open>$push\<close>, then \<open>$unshift\<close>, read the version
  token before them and the link after them, and return the answer of the store.
\<close>

lemma updateProc_tryUpdate_order:
  assumes "updateProc_pop neg (updateProc_set (plain d) u) u = Inr d2"
    "updateProc_push d2 u = Inr d3" "updateProc_unshift d3 u = Inr d4"
    "replaceDocument c (jsonField d4 ''_self'') (own d4) (getProp d ''_etag'') = RReplaced r"
  shows "updateProc_tryUpdate neg c u d =
           (Inr r, [ReplaceDocument (jsonField d4 ''_self'') (own d4) (getProp d ''_etag'')])"
  using assms by (simp add: updateProc_tryUpdate_def jsonField_plain)

lemma updateFunc_tryUpdate_order:
  assumes "updateFunc_pop (updateFunc_set (plain d) u) u = Inr d2"
    "updateFunc_push d2 u = Inr d3" "updateFunc_unshift d3 u = Inr d4"
    "replaceDocument c (jsonField d4 ''_self'') (own d4) (getProp d ''_etag'') = RReplaced r"
  shows "updateFunc_tryUpdate c u d =
           (Inr r, [ReplaceDocument (jsonField d4 ''_self'') (own d4) (getProp d ''_etag'')])"
  using assms by (simp add: updateFunc_tryUpdate_def jsonField_plain)

text \<open>In \<open>updateFunc\<close> the operators succeed as soon as the array operators target arrays
  only, in the document as \<open>$set\<close> leaves it.\<close>

lemma updateFunc_applies_operators:
  assumes id: "i \<noteq> []"
    and found: "queryDocuments c (updateFunc_query i) None = QFeed (d # ds) k"
    and noproto: "''__proto__'' \<notin> groupKeys (dollar_set u)"
    and pre: "\<forall>f \<in> groupKeys (dollar_pop u) \<union> groupKeys (dollar_push u) \<union> groupKeys (dollar_unshift u).
                Array_isArray (jsonField (updateFunc_set (plain d) u) f)"
    and store: "\<forall>link dd. \<exists>r. replaceDocument c link dd (getProp d ''_etag'') = RReplaced r"
  shows "\<exists>d1 d2 d3 d4 r.
      updateFunc_set (plain d) u = plain d1
    \<and> updateFunc_pop (plain d1) u = Inr (plain d2)
    \<and> updateFunc_push (plain d2) u = Inr (plain d3)
    \<and> updateFunc_unshift (plain d3) u = Inr (plain d4)
    \<and> replaceDocument c (getProp d4 ''_self'') d4 (getProp d ''_etag'') = RReplaced r
    \<and> updateFunc c (Some i) (Some u) =
        (Inr r, [QueryDocuments (updateFunc_query i) None,
                 ReplaceDocument (getProp d4 ''_self'') d4 (getProp d ''_etag'')])"
proof -
  from updateFunc_set_plain[OF noproto] obtain d1 where
    d1: "updateFunc_set (plain d) u = plain d1" by blast
  from pre have "\<forall>f \<in> groupKeys (dollar_pop u) \<union> groupKeys (dollar_push u) \<union> groupKeys (dollar_unshift u).
                Array_isArray (getProp d1 f)"
    by (simp add: d1 jsonField_plain)
  from updateFunc_operators_succeed[OF this] obtain d2 d3 d4 where
    ops: "updateFunc_pop (plain d1) u = Inr (plain d2)"
         "updateFunc_push (plain d2) u = Inr (plain d3)"
         "updateFunc_unshift (plain d3) u = Inr (plain d4)" by blast
  from store obtain r where
    r: "replaceDocument c (getProp d4 ''_self'') d4 (getProp d ''_etag'') = RReplaced r" by blast
  have "updateFunc c (Some i) (Some u) =
        (Inr r, [QueryDocuments (updateFunc_query i) None,
                 ReplaceDocument (getProp d4 ''_self'') d4 (getProp d ''_etag'')])"
    using id found d1 ops r
    by (simp add: updateFunc_def updateFunc_tryQueryAndUpdate_def updateFunc_tryUpdate_def
          jsonField_plain own_plain)
  with d1 ops r show ?thesis by blast
qed

text \<open>
  Claim C3: for a found document and operators whose targets hold arrays, the update
  returns the document with \<open>$set\<close>, \<open>$pop\<close>, \<open>$push\<close> and \<open>$unshift\<close> applied in that order. The
  order is the claimed one, but what two of the operators do is not, and that reaches the
  result. On the document \<open>tagged\<close> (\<open>tags\<close> holds \<open>["a", "b", "c"]\<close>): \<open>updateFunc\<close> with
  \<open>{$pop: {tags: -1}}\<close> has the store write \<open>["a", "b"]\<close> and returns that, where the claim
  gives \<open>["b", "c"]\<close>; the inline script with \<open>{$unshift: {tags: "z"}}\<close> makes its query,
  throws a \<open>TypeError\<close> and returns no document, where the claim gives
  \<open>["z", "a", "b", "c"]\<close>.
\<close>

theorem update_result_carries_operator_slips:
  "updateFunc (singlePage [tagged]) (Some ''1'')
     (Some (noCommands\<lparr>dollar_pop := Some [(''tags'', JNum (- 1))]\<rparr>)) =
     (Inr [(''id'', JStr ''1''), (''_self'', JStr ''docs/1''), (''_etag'', JStr ''v1''),
           (''tags'', JArr [JStr ''a'', JStr ''b''])],
      [QueryDocuments (updateFunc_query ''1'') None,
       ReplaceDocument (JStr ''docs/1'')
         [(''id'', JStr ''1''), (''_self'', JStr ''docs/1''), (''_etag'', JStr ''v1''),
          (''tags'', JArr [JStr ''a'', JStr ''b''])]
         (JStr ''v1'')])
   \<and> updateProc neg (singlePage [tagged]) (Some ''1'')
       (Some (noCommands\<lparr>dollar_unshift := Some [(''tags'', JStr ''z'')]\<rparr>)) =
     Some (Inl TypeError, [QueryDocuments (updateProc_query ''1'') None])"
proof
  show "updateFunc (singlePage [tagged]) (Some ''1'')
     (Some (noCommands\<lparr>dollar_pop := Some [(''tags'', JNum (- 1))]\<rparr>)) =
     (Inr [(''id'', JStr ''1''), (''_self'', JStr ''docs/1''), (''_etag'', JStr ''v1''),
           (''tags'', JArr [JStr ''a'', JStr ''b''])],
      [QueryDocuments (updateFunc_query ''1'') None,
       ReplaceDocument (JStr ''docs/1'')
         [(''id'', JStr ''1''), (''_self'', JStr ''docs/1''), (''_etag'', JStr ''v1''),
          (''tags'', JArr [JStr ''a'', JStr ''b''])]
         (JStr ''v1'')])"
    by (simp add: singlePage_def tagged_def noCommands_def Object_keys_def
        updateFunc_def updateFunc_tryQueryAndUpdate_def updateFunc_tryUpdate_def
        updateFunc_set_def updateFunc_pop_def updateFunc_push_def updateFunc_unshift_def
        lookup_plain jsonField_plain plain_own_update own_plain assignField_plain
        getProp_def Let_def)
  have q: "queryDocuments (singlePage [tagged]) (updateProc_query ''1'') None
             = QFeed [tagged] None"
    by (simp add: singlePage_def)
  have "updateProc_tryUpdate neg (singlePage [tagged])
          (noCommands\<lparr>dollar_unshift := Some [(''tags'', JStr ''z'')]\<rparr>) tagged
        = (Inl TypeError, [])"
    by (simp add: updateProc_tryUpdate_def updateProc_set_def updateProc_pop_def
          updateProc_push_def updateProc_unshift_def noCommands_def tagged_def
          Object_keys_def lookup_plain Let_def)
  then show "updateProc neg (singlePage [tagged]) (Some ''1'')
       (Some (noCommands\<lparr>dollar_unshift := Some [(''tags'', JStr ''z'')]\<rparr>)) =
     Some (Inl TypeError, [QueryDocuments (updateProc_query ''1'') None])"
    by (simp add: updateProc_def updateProc_found[OF q])
qed

section \<open>Failures leave the store as it was\<close>




section \<open>Validation\<close>

text \<open>
  Claim C8: when the id is \<open>null\<close>, \<open>undefined\<close> or empty, or the command set is \<open>null\<close> or
  \<open>undefined\<close>, both scripts throw their validation message and have made no request to
  the store.
\<close>

theorem update_validates_before_store_io:
  assumes "id' = None \<or> id' = Some [] \<or> cmds = None"
  shows "(\<exists>m \<in> {''The id is undefined or null.'', ''The update command is undefined or null.''}.
            updateFunc c id' cmds = (Inl (Error m), []))
       \<and> (\<exists>m \<in> {''The id is undefined or null.'', ''The update is undefined or null.''}.
            updateProc neg c id' cmds = Some (Inl (Error m), []))"
  using assms by (auto simp: updateFunc_def updateProc_def split: option.splits)

theorem update_validates_before_store_io_witness:
  "updateFunc (singlePage [user1]) (Some []) (Some noCommands) =
     (Inl (Error ''The id is undefined or null.''), [])
   \<and> updateProc (\<lambda>s. False) (singlePage [user1]) (Some ''1'') None =
     Some (Inl (Error ''The update is undefined or null.''), [])"
  using update_validates_before_store_io[of "Some []" "Some noCommands" "singlePage [user1]" "\<lambda>s. False"]
    update_validates_before_store_io[of "Some ''1''" None "singlePage [user1]" "\<lambda>s. False"]
  by (simp add: updateFunc_def updateProc_def)

section \<open>Fields no group names\<close>

text \<open>
  Claim C9: when \<open>updateFunc\<close> returns a document \<open>r\<close> for the document \<open>d\<close> that its query
  found, a field \<open>f\<close> that is a key of none of the four groups has in \<open>r\<close> the value it has
  in \<open>d\<close>, provided \<open>f\<close> is a field the store hands back as it was written (which is what
  sets it apart from the fields the store manages, such as the version token).
\<close>

theorem update_keeps_untargeted_fields:
  assumes run: "updateFunc c (Some i) (Some u) = (Inr r, tr)"
    and found: "queryDocuments c (updateFunc_query i) None = QFeed (d # ds) k"
    and untargeted: "f \<notin> groupKeys (dollar_set u) \<union> groupKeys (dollar_pop u)
                        \<union> groupKeys (dollar_push u) \<union> groupKeys (dollar_unshift u)"
    and echo: "\<forall>link dd etag r'. replaceDocument c link dd etag = RReplaced r'
                  \<longrightarrow> map_of r' f = map_of dd f"
  shows "map_of r f = map_of d f"
proof -
  have i: "i \<noteq> []" using run by (auto simp: updateFunc_def split: if_splits)
  with run found have tu: "fst (updateFunc_tryUpdate c u d) = Inr r"
    by (auto simp: updateFunc_def updateFunc_tryQueryAndUpdate_def Let_def)
  then obtain d2 d3 d4 where
    ops: "updateFunc_pop (updateFunc_set (plain d) u) u = Inr d2" "updateFunc_push d2 u = Inr d3"
         "updateFunc_unshift d3 u = Inr d4"
    and rep: "replaceDocument c (jsonField d4 ''_self'') (own d4)
                (jsonField (plain d) ''_etag'') = RReplaced r"
    by (auto simp: updateFunc_tryUpdate_def Let_def split: sum.splits replace_reply.splits)
  have "map_of (own d4) f = map_of (own (plain d)) f"
    using untargeted updateFunc_unshift_own[OF ops(3), of f] updateFunc_push_own[OF ops(2), of f]
      updateFunc_pop_own[OF ops(1), of f] updateFunc_set_own[of f u "plain d"]
    by simp
  moreover have "map_of r f = map_of (own d4) f" using echo rep by blast
  ultimately show ?thesis by (simp add: own_plain)
qed

theorem update_keeps_untargeted_fields_witness:
  "updateFunc (singlePage [user1]) (Some ''1'')
      (Some (noCommands\<lparr>dollar_set := Some [(''tags'', JArr [])],
                         dollar_push := Some [(''tags'', JStr ''b'')]\<rparr>)) =
     (Inr (user1 @ [(''tags'', JArr [JStr ''b''])]),
      [QueryDocuments (updateFunc_query ''1'') None,
       ReplaceDocument (JStr ''docs/1'') (user1 @ [(''tags'', JArr [JStr ''b''])]) (JStr ''v1'')])
   \<and> map_of (user1 @ [(''tags'', JArr [JStr ''b''])]) ''key'' = map_of user1 ''key''"
  using update_keeps_untargeted_fields[of "singlePage [user1]" "''1''"
      "noCommands\<lparr>dollar_set := Some [(''tags'', JArr [])],
                  dollar_push := Some [(''tags'', JStr ''b'')]\<rparr>"
      "user1 @ [(''tags'', JArr [JStr ''b''])]"
      "[QueryDocuments (updateFunc_query ''1'') None,
       ReplaceDocument (JStr ''docs/1'') (user1 @ [(''tags'', JArr [JStr ''b''])]) (JStr ''v1'')]"
      user1 "[]" None "''key''"]
  by (simp add: singlePage_def user1_def noCommands_def groupKeys_def Object_keys_def
        updateFunc_def updateFunc_tryQueryAndUpdate_def updateFunc_tryUpdate_def
        updateFunc_set_def updateFunc_pop_def updateFunc_push_def updateFunc_unshift_def
        lookup_plain jsonField_plain plain_own_update own_plain assignField_plain
        getProp_def Let_def)

section \<open>\<open>$pop\<close> on an empty array\<close>

text \<open>With every target an array, the only error left to the inline \<open>pop\<close> is the
  \<open>TypeError\<close> of a comparison.\<close>

lemma updateProc_pop_loop_error:
  "\<forall>k\<in>set fs. Array_isArray (getProp d k) \<Longrightarrow>
   updateProc_pop_loop neg g fs (plain d) = Inl e \<Longrightarrow> e = TypeError"
proof (induction fs arbitrary: d)
  case Nil
  then show ?case by simp
next
  case (Cons f fs)
  from Cons.prems(1) obtain xs where xs: "getProp d f = JArr xs"
    by (auto simp: isArray_iff)
  have keep: "\<And>ys. \<forall>k\<in>set fs. Array_isArray (getProp (assign d f (JArr ys)) k)"
    using Cons.prems(1) by (simp add: getProp_assign Array_isArray_def)
  show ?case
  proof (cases "lessThanZero neg (getProp g f)")
    case (Inl e')
    with Cons.prems(2) xs have "e = e'"
      by (simp add: arrayStep_plain)
    with lessThanZero_error[OF Inl] show ?thesis by simp
  next
    case (Inr b)
    with Cons.prems(2) xs Cons.IH[OF keep] show ?thesis
      by (cases b) (simp_all add: arrayStep_plain plain_own_update own_plain)
  qed
qed

text \<open>
  Claim C10: when \<open>$pop\<close> targets a field holding the empty array (and arrays only), on a
  document with the prototype it came with, \<open>pop\<close> throws no operator error and the field
  still holds the empty array, whatever the sign of the value given for the field. In
  \<open>update.ts\<close> \<open>pop\<close> succeeds. In the inline script it succeeds whenever the comparisons
  of the values with zero return, as they do for every number; the one error it can throw
  is the \<open>TypeError\<close> of such a comparison.
\<close>

theorem pop_on_empty_array_is_noop:
  assumes g: "dollar_pop u = Some g"
    and f: "f \<in> set (Object_keys g)"
    and empty: "getProp d f = JArr []"
    and arrays: "\<forall>k\<in>set (Object_keys g). Array_isArray (getProp d k)"
  shows "(\<exists>d'. updateFunc_pop (plain d) u = Inr (plain d') \<and> getProp d' f = JArr [])
       \<and> ((\<forall>k\<in>set (Object_keys g). \<forall>e. lessThanZero neg (getProp g k) \<noteq> Inl e) \<longrightarrow>
            (\<exists>d'. updateProc_pop neg (plain d) u = Inr (plain d') \<and> getProp d' f = JArr []))
       \<and> (\<forall>e. updateProc_pop neg (plain d) u = Inl e \<longrightarrow> e = TypeError)"
proof (intro conjI impI allI)
  let ?h1 = "\<lambda>(f::string). (butlast :: jv list \<Rightarrow> jv list)"
  have "\<not> (\<exists>e. arrayLoop ?h1 popMessage (Object_keys g) d = Inl e)"
    using arrays by (simp add: arrayLoop_fails_iff)
  then obtain d1 where d1: "arrayLoop ?h1 popMessage (Object_keys g) d = Inr d1"
    by (cases "arrayLoop ?h1 popMessage (Object_keys g) d") auto
  have "getProp d1 f = JArr []" using arrayLoop_empty[OF d1 _ empty] by simp
  then show "\<exists>d'. updateFunc_pop (plain d) u = Inr (plain d') \<and> getProp d' f = JArr []"
    using g d1 by (auto simp: updateFunc_pop_plain plainOp_def)
next
  let ?h2 = "\<lambda>f xs. if lessThanZero neg (getProp g f) = Inr True then tl xs else butlast xs"
  assume ok: "\<forall>k\<in>set (Object_keys g). \<forall>e. lessThanZero neg (getProp g k) \<noteq> Inl e"
  have "\<not> (\<exists>e. arrayLoop ?h2 popMessage (Object_keys g) d = Inl e)"
    using arrays by (simp add: arrayLoop_fails_iff)
  then obtain d2 where d2: "arrayLoop ?h2 popMessage (Object_keys g) d = Inr d2"
    by (cases "arrayLoop ?h2 popMessage (Object_keys g) d") auto
  have "getProp d2 f = JArr []" using arrayLoop_empty[OF d2 _ empty] by simp
  then show "\<exists>d'. updateProc_pop neg (plain d) u = Inr (plain d') \<and> getProp d' f = JArr []"
    using g d2 by (auto simp: updateProc_pop_def updateProc_pop_loop_plain[OF ok])
next
  fix e
  assume "updateProc_pop neg (plain d) u = Inl e"
  with g have "updateProc_pop_loop neg g (Object_keys g) (plain d) = Inl e"
    by (simp add: updateProc_pop_def)
  from updateProc_pop_loop_error[OF arrays this] show "e = TypeError" .
qed

theorem pop_on_empty_array_is_noop_witness:
  "updateFunc_pop (plain [(''tags'', JArr [])])
       (noCommands\<lparr>dollar_pop := Some [(''tags'', JNum (- 1))]\<rparr>)
     = Inr (plain [(''tags'', JArr [])])
   \<and> updateProc_pop (\<lambda>s. False) (plain [(''tags'', JArr [])])
       (noCommands\<lparr>dollar_pop := Some [(''tags'', JNum (- 1))]\<rparr>)
     = Inr (plain [(''tags'', JArr [])])"
  using pop_on_empty_array_is_noop[of "noCommands\<lparr>dollar_pop := Some [(''tags'', JNum (- 1))]\<rparr>"
      "[(''tags'', JNum (- 1))]" "''tags''" "[(''tags'', JArr [])]" "\<lambda>s. False"]
  by (simp add: noCommands_def Object_keys_def getProp_def Array_isArray_def
        updateFunc_pop_def updateProc_pop_def lookup_plain plain_own_update own_plain
        plain_eq_iff negativeDouble_def)

section \<open>Bulk delete\<close>

lemma bulkDelete_tryDelete_all:
  "\<forall>x\<in>set docs. deleteDocument c (getProp x ''_self'') = DDeleted \<Longrightarrow>
   bulkDelete_tryDelete c docs n = (Inr None, map (\<lambda>x. DeleteDocument (getProp x ''_self'')) docs)"
  by (induction docs arbitrary: n) simp_all

lemma bulkDelete_tryDelete_not_accepted:
  "\<forall>x\<in>set pre. deleteDocument c (getProp x ''_self'') = DDeleted \<Longrightarrow>
   deleteDocument c (getProp d ''_self'') = DNotAccepted \<Longrightarrow>
   bulkDelete_tryDelete c (pre @ d # post) n =
     (Inr (Some (responseBody (n + length pre))),
      map (\<lambda>x. DeleteDocument (getProp x ''_self'')) (pre @ [d]))"
  by (induction pre arbitrary: n) simp_all

text \<open>On an empty collection the body is \<open>{deleted: 0}\<close>. When every document of the
  first page has been deleted, the run ends: no body is set and no further page is asked
  for.\<close>

lemma bulkDelete_empty_collection:
  "queryDocuments c bulkDelete_query None = QFeed [] k \<Longrightarrow>
   bulkDeleteProc c = (Inr (Some (responseBody 0)), [QueryDocuments bulkDelete_query None])"
  by (simp add: bulkDeleteProc_def bulkDelete_tryQueryAndDelete_def)

lemma bulkDelete_body_never_set:
  assumes "queryDocuments c bulkDelete_query None = QFeed (d # ds) k"
    and "\<forall>x\<in>set (d # ds). deleteDocument c (getProp x ''_self'') = DDeleted"
  shows "bulkDeleteProc c =
     (Inr None, QueryDocuments bulkDelete_query None
                  # map (\<lambda>x. DeleteDocument (getProp x ''_self'')) (d # ds))"
  using assms(1) bulkDelete_tryDelete_all[OF assms(2), of 0]
  by (simp add: bulkDeleteProc_def bulkDelete_tryQueryAndDelete_def)

text \<open>
  Claim C6: on an empty collection the bulk delete returns \<open>{deleted: 0}\<close>, and on a
  collection of \<open>N\<close> documents, with budget for everything, it deletes them all and returns
  \<open>{deleted: N}\<close>. The first half holds (\<open>bulkDelete_empty_collection\<close>). The second does
  not: on a collection of one document the script deletes it and ends without a call of
  \<open>response.setBody\<close>, since \<open>tryDelete\<close> does nothing on an empty queue.
\<close>

theorem bulkDelete_one_document_sets_no_body:
  "bulkDeleteProc (singlePage [user1]) =
     (Inr None, [QueryDocuments bulkDelete_query None, DeleteDocument (JStr ''docs/1'')])"
  by (simp add: bulkDeleteProc_def bulkDelete_tryQueryAndDelete_def singlePage_def user1_def
        getProp_def)

text \<open>
  Claim C7: when the store does not accept the query, the bulk delete returns
  \<open>{deleted: 0}\<close>; when it does not accept the delete of a document of the page, after
  deleting the documents \<open>pre\<close> before it, the bulk delete returns \<open>{deleted: length pre}\<close>,
  which is the number of deletions carried out, and leaves the documents \<open>post\<close> behind it
  alone. Neither case is an error.
\<close>

theorem bulkDelete_stops_when_not_accepted:
  "(queryDocuments c bulkDelete_query None = QNotAccepted \<longrightarrow>
      bulkDeleteProc c = (Inr (Some (responseBody 0)), [QueryDocuments bulkDelete_query None]))
   \<and> (queryDocuments c bulkDelete_query None = QFeed (pre @ d # post) k
        \<and> (\<forall>x\<in>set pre. deleteDocument c (getProp x ''_self'') = DDeleted)
        \<and> deleteDocument c (getProp d ''_self'') = DNotAccepted \<longrightarrow>
      bulkDeleteProc c =
        (Inr (Some (responseBody (length pre))),
         QueryDocuments bulkDelete_query None
           # map (\<lambda>x. DeleteDocument (getProp x ''_self'')) (pre @ [d]))
      \<and> mutations c (snd (bulkDeleteProc c)) = length pre)"
proof (intro conjI impI)
  assume "queryDocuments c bulkDelete_query None = QNotAccepted"
  then show "bulkDeleteProc c = (Inr (Some (responseBody 0)), [QueryDocuments bulkDelete_query None])"
    by (simp add: bulkDeleteProc_def bulkDelete_tryQueryAndDelete_def)
next
  assume a: "queryDocuments c bulkDelete_query None = QFeed (pre @ d # post) k
        \<and> (\<forall>x\<in>set pre. deleteDocument c (getProp x ''_self'') = DDeleted)
        \<and> deleteDocument c (getProp d ''_self'') = DNotAccepted"
  then have td: "bulkDelete_tryDelete c (pre @ d # post) 0 =
     (Inr (Some (responseBody (length pre))),
      map (\<lambda>x. DeleteDocument (getProp x ''_self'')) (pre @ [d]))"
    using bulkDelete_tryDelete_not_accepted[of pre c d post 0] by simp
  from a td show run: "bulkDeleteProc c =
        (Inr (Some (responseBody (length pre))),
         QueryDocuments bulkDelete_query None
           # map (\<lambda>x. DeleteDocument (getProp x ''_self'')) (pre @ [d]))"
    by (cases "pre @ d # post") (simp_all add: bulkDeleteProc_def bulkDelete_tryQueryAndDelete_def)
  from a have "mutations c (map (\<lambda>x. DeleteDocument (getProp x ''_self'')) pre
                  @ [DeleteDocument (getProp d ''_self'')]) = length pre"
    by (simp add: mutations_deletes mutations_simps)
  then show "mutations c (snd (bulkDeleteProc c)) = length pre"
    by (simp add: run mutations_simps)
qed

theorem bulkDelete_stops_when_not_accepted_witness:
  "bulkDeleteProc noBudget = (Inr (Some [(''deleted'', JNum 0)]), [QueryDocuments bulkDelete_query None])
   \<and> bulkDeleteProc (budgetFor [JStr ''docs/1''] [user1, user2, user3]) =
       (Inr (Some [(''deleted'', JNum 1)]),
        [QueryDocuments bulkDelete_query None, DeleteDocument (JStr ''docs/1''),
         DeleteDocument (JStr ''docs/2'')])
   \<and> mutations (budgetFor [JStr ''docs/1''] [user1, user2, user3])
        (snd (bulkDeleteProc (budgetFor [JStr ''docs/1''] [user1, user2, user3]))) = 1"
  using bulkDelete_stops_when_not_accepted[of noBudget "[]" user1 "[]" None]
    bulkDelete_stops_when_not_accepted[of "budgetFor [JStr ''docs/1''] [user1, user2, user3]"
      "[user1]" user2 "[user3]" None]
  by (simp add: noBudget_def budgetFor_def user1_def user2_def user3_def getProp_def
        responseBody_def mutations_simps)

end
